theory Spec2Isabelle
  imports Complex_Main
begin

section \<open>JavaScript values used by the two handlers\<close>

text \<open>
  Strings are HOL strings: a character is a code unit below 256, read as the Unicode
  character of that number. Code units from 256 on have no value in this type.
  \<open>toLowerCase\<close> maps the capital letters A to Z, and the capital letters from 192 to 222
  except the multiplication sign 215, to the letter 32 above; every other character below
  256 is its own lower case.
\<close>

definition toLowerCaseChar :: "char \<Rightarrow> char" where
  "toLowerCaseChar c =
     (let n = (of_char c :: nat) in
      if (65 \<le> n \<and> n \<le> 90) \<or> (192 \<le> n \<and> n \<le> 222 \<and> n \<noteq> 215)
      then char_of (n + 32) else c)"

definition toLowerCase :: "string \<Rightarrow> string" where
  "toLowerCase s = map toLowerCaseChar s"

text \<open>The class \<open>\s\<close> of a regular expression, and the white space \<open>parseInt\<close> trims:
  tab, line feed, vertical tab, form feed, carriage return, space, and the no-break space
  160. These are all the white space and line terminator characters below 256.\<close>

definition isWhiteSpace :: "char \<Rightarrow> bool" where
  "isWhiteSpace c =
     (let n = (of_char c :: nat) in (9 \<le> n \<and> n \<le> 13) \<or> n = 32 \<or> n = 160)"

text \<open>The value of a digit in radix 16; \<open>None\<close> for every other character.\<close>

definition hexDigit :: "char \<Rightarrow> nat option" where
  "hexDigit c =
     (let n = (of_char c :: nat) in
      if 48 \<le> n \<and> n \<le> 57 then Some (n - 48)
      else if 97 \<le> n \<and> n \<le> 102 then Some (n - 87)
      else if 65 \<le> n \<and> n \<le> 70 then Some (n - 55)
      else None)"

definition isHexDigit :: "char \<Rightarrow> bool" where
  "isHexDigit c = (hexDigit c \<noteq> None)"

text \<open>
  \<open>parseInt(s, 16)\<close>: leading white space is trimmed, one sign is read, one prefix
  \<open>0x\<close> or \<open>0X\<close> is dropped, and the longest run of hexadecimal digits is the value. An
  empty run is \<open>NaN\<close>, here \<open>None\<close>. The value is kept as the exact integer: JavaScript
  rounds it to the nearest double, which changes no comparison with the two bounds below
  (both are exact doubles and rounding is monotone).
\<close>

definition hexValue :: "string \<Rightarrow> int" where
  "hexValue ds = foldl (\<lambda>acc c. 16 * acc + int (case hexDigit c of Some d \<Rightarrow> d | None \<Rightarrow> 0)) 0 ds"

definition parseInt16 :: "string \<Rightarrow> int option" where
  "parseInt16 s =
     (let s1 = dropWhile isWhiteSpace s;
          sign = (if take 1 s1 = ''-'' then - 1 else 1 :: int);
          s2 = (if take 1 s1 = ''-'' \<or> take 1 s1 = ''+'' then drop 1 s1 else s1);
          s3 = (if take 2 s2 = ''0x'' \<or> take 2 s2 = ''0X'' then drop 2 s2 else s2);
          ds = takeWhile isHexDigit s3
      in if ds = [] then None else Some (sign * hexValue ds))"

text \<open>\<open>xs[i]\<close> on an array: \<open>undefined\<close>, here \<open>None\<close>, out of range.\<close>

definition js_index :: "'a list \<Rightarrow> nat \<Rightarrow> 'a option" where
  "js_index xs i = (if i < length xs then Some (xs ! i) else None)"

section \<open>The crypto verifier: constants and data\<close>

definition USDC_CONTRACT :: string where
  "USDC_CONTRACT = ''0x833589fCD6eDb6E08f4c7C32D4f71b54bdA02913''"

definition MIN_AMOUNT :: int where
  "MIN_AMOUNT = 28000000"

definition MAX_AMOUNT :: int where
  "MAX_AMOUNT = 35000000"

definition DOWNLOAD_URL :: string where
  "DOWNLOAD_URL = ''https://felixcraft.ai/dl/c5768e3409026bab01bb1649.pdf''"

definition THANK_YOU_URL :: string where
  "THANK_YOU_URL = ''https://felixcraft.ai/168a1eb2dd92fd596ac191d4''"

definition TRANSFER_TOPIC :: string where
  "TRANSFER_TOPIC = ''0xddf252ad1be2c89b69c2b068fc378daa952ba7f163c4a11628f55a4df523b3ef''"

text \<open>
  An event log of a receipt as the node returns it. The code guards against absent
  \<open>topics\<close> (\<open>!log.topics\<close>) and absent \<open>logs\<close> (\<open>receipt.logs || []\<close>), so both are
  optional; \<open>address\<close>, \<open>data\<close> and \<open>status\<close> are strings.
\<close>

record log =
  address :: string
  topics :: "string list option"
  data :: string

record receipt =
  status :: string
  logs :: "log list option"

text \<open>What \<open>verifyUSDCTransfer\<close> returns: \<open>{valid: true, amount}\<close> or
  \<open>{valid: false, reason}\<close>. The amount is \<open>amount / 1_000_000\<close>, kept as the exact
  quotient (JavaScript holds the nearest double).\<close>

datatype verification = Valid rat | Invalid string

text \<open>The one kind of exception raised by the module's own code: a method call on
  \<open>undefined\<close> in the scan, a destructuring of \<open>null\<close> in the handler.\<close>

datatype js_error = TypeError

text \<open>
  What \<open>await resend.emails.send(...)\<close> does: it resolves to a result with data (\<open>Sent\<close>),
  it resolves to a result holding an error and no data (\<open>SendError\<close>, the mail was not
  sent and nothing is thrown), or it throws (\<open>SendFailed\<close>, with the message of what is
  thrown). Neither handler reads the value it resolves to.
\<close>

datatype send_result = Sent | SendError string | SendFailed string

datatype fetch_result = FetchThrows | FetchReturns "receipt option"

text \<open>
  What the module reads from its surroundings: the two environment variables, the node
  answering the JSON-RPC call (by URL and transaction hash), the mail service (by
  recipient), and \<open>Number.prototype.toFixed(2)\<close>, which renders a double and is taken as
  it is.
\<close>

record env =
  CRYPTO_RECEIVING_WALLET :: "string option"
  BASE_RPC_URL :: "string option"
  rpc :: "string \<Rightarrow> string \<Rightarrow> fetch_result"
  emails_send :: "string \<Rightarrow> send_result"
  toFixed2 :: "rat \<Rightarrow> string"

text \<open>\<open>(process.env.CRYPTO_RECEIVING_WALLET || '').toLowerCase()\<close>\<close>

definition RECEIVING_WALLET :: "env \<Rightarrow> string" where
  "RECEIVING_WALLET e =
     toLowerCase (case CRYPTO_RECEIVING_WALLET e of None \<Rightarrow> [] | Some w \<Rightarrow> w)"

section \<open>verifyUSDCTransfer\<close>

definition below_reason :: "env \<Rightarrow> int \<Rightarrow> string" where
  "below_reason e amount =
     ''Payment amount ($'' @ toFixed2 e (of_int amount / 1000000)
       @ '') is below the required amount.''"

definition no_transfer_reason :: string where
  "no_transfer_reason =
     ''No valid USDC transfer found in this transaction. Please check the transaction hash.''"

text \<open>
  One turn of the loop over the logs. \<open>Inr None\<close> is reaching the end of the body or a
  \<open>continue\<close>: the loop goes on; \<open>Inr (Some v)\<close> is \<open>return v\<close>; \<open>Inl TypeError\<close> is
  \<open>log.topics[2].slice\<close> on a missing third topic.
\<close>

definition loop_body :: "env \<Rightarrow> log \<Rightarrow> js_error + verification option" where
  "loop_body e l =
     (if toLowerCase (address l) \<noteq> toLowerCase USDC_CONTRACT then Inr None
      else (case topics l of
        None \<Rightarrow> Inr None
      | Some ts \<Rightarrow>
          if js_index ts 0 \<noteq> Some TRANSFER_TOPIC then Inr None
          else (case js_index ts 2 of
            None \<Rightarrow> Inl TypeError
          | Some t2 \<Rightarrow>
              (let toAddress = ''0x'' @ toLowerCase (drop 26 t2) in
               if RECEIVING_WALLET e \<noteq> [] \<and> toAddress \<noteq> RECEIVING_WALLET e then Inr None
               else (case parseInt16 (data l) of
                 None \<Rightarrow> Inr None
               | Some amount \<Rightarrow>
                   if amount \<ge> MIN_AMOUNT \<and> amount \<le> MAX_AMOUNT
                   then Inr (Some (Valid (of_int amount / 1000000)))
                   else if amount < MIN_AMOUNT
                   then Inr (Some (Invalid (below_reason e amount)))
                   else Inr None)))))"

fun scan_logs :: "env \<Rightarrow> log list \<Rightarrow> js_error + verification" where
  "scan_logs e [] = Inr (Invalid no_transfer_reason)"
| "scan_logs e (l # ls) =
     (case loop_body e l of
        Inl err \<Rightarrow> Inl err
      | Inr (Some v) \<Rightarrow> Inr v
      | Inr None \<Rightarrow> scan_logs e ls)"

text \<open>\<open>receipt.logs || []\<close>\<close>

definition receipt_logs :: "receipt \<Rightarrow> log list" where
  "receipt_logs r = (case logs r of None \<Rightarrow> [] | Some ls \<Rightarrow> ls)"

definition verifyUSDCTransfer :: "env \<Rightarrow> receipt \<Rightarrow> js_error + verification" where
  "verifyUSDCTransfer e r = scan_logs e (receipt_logs r)"

section \<open>The crypto verifier: the request handler\<close>

datatype jval = JStr string | JBool bool

text \<open>A response: the status, the headers set, and the JSON object sent (\<open>None\<close> for
  \<open>end()\<close> with no body).\<close>

record response =
  statusCode :: nat
  headers :: "(string \<times> string) list"
  payload :: "(string \<times> jval) list option"

text \<open>
  The request body after parsing: not JSON (\<open>JSON.parse\<close> throws), the JSON value
  \<open>null\<close>, or a value whose \<open>email\<close> and \<open>txHash\<close> are strings or absent (an object, or a
  number, string, boolean or array, which have neither). \<open>http_method\<close> is \<open>req.method\<close>.
\<close>

datatype body = InvalidJson | JsonNull | Json "string option" "string option"

record request =
  http_method :: string
  body :: body

text \<open>The outbound calls a handler makes, in order: the JSON-RPC request (URL, hash)
  and the mail (sender, recipient, subject; its HTML body is a constant text and is left
  out). Writes to the console are not recorded.\<close>

datatype effect = RpcCall string string | EmailSend string string string

definition cors_headers :: "(string \<times> string) list" where
  "cors_headers =
     [(''Access-Control-Allow-Origin'', ''https://felixcraft.ai''),
      (''Access-Control-Allow-Methods'', ''POST, OPTIONS''),
      (''Access-Control-Allow-Headers'', ''Content-Type'')]"

definition respond :: "nat \<Rightarrow> (string \<times> jval) list \<Rightarrow> response" where
  "respond code obj = \<lparr>statusCode = code, headers = cors_headers, payload = Some obj\<rparr>"

definition error_json :: "string \<Rightarrow> (string \<times> jval) list" where
  "error_json msg = [(''error'', JStr msg)]"

definition success_json :: "(string \<times> jval) list" where
  "success_json =
     [(''success'', JBool True),
      (''downloadUrl'', JStr DOWNLOAD_URL),
      (''thankYouUrl'', JStr THANK_YOU_URL),
      (''message'', JStr ''Payment verified! Your download is ready.'')]"

text \<open>\<open>/^0x[a-fA-F0-9]{64}$/\<close>\<close>

definition hashRegex :: "string \<Rightarrow> bool" where
  "hashRegex s = (take 2 s = ''0x'' \<and> length s = 66 \<and> list_all isHexDigit (drop 2 s))"

text \<open>
  \<open>/^[^\s@]+@[^\s@]+\.[^\s@]+$/\<close>. The first group cannot hold an at sign and is followed
  by one, so it is the whole run of admissible characters at the start; what follows the
  at sign is admissible throughout and has a dot that is neither its first nor its last
  character.
\<close>

definition emailChar :: "char \<Rightarrow> bool" where
  "emailChar c = (\<not> isWhiteSpace c \<and> c \<noteq> CHR ''@'')"

definition emailRegex :: "string \<Rightarrow> bool" where
  "emailRegex s =
     (takeWhile emailChar s \<noteq> [] \<and>
      (case dropWhile emailChar s of
         [] \<Rightarrow> False
       | c # domain \<Rightarrow>
           c = CHR ''@'' \<and> list_all emailChar domain \<and> CHR ''.'' \<in> set (butlast (tl domain))))"

definition rpcUrl :: "env \<Rightarrow> string" where
  "rpcUrl e =
     (case BASE_RPC_URL e of
        None \<Rightarrow> ''https://mainnet.base.org''
      | Some u \<Rightarrow> if u = [] then ''https://mainnet.base.org'' else u)"

definition fetchTxReceipt :: "env \<Rightarrow> string \<Rightarrow> fetch_result" where
  "fetchTxReceipt e txHash = rpc e (rpcUrl e) txHash"

definition download_mail :: "string \<Rightarrow> effect" where
  \<open>download_mail to =
     EmailSend ''Felix Craft <felix@masinov.co>'' to
       ''Your "How to Hire an AI" download is ready''\<close>

definition not_found_msg :: string where
  "not_found_msg = ''Transaction not found or failed. Please check the hash and try again.''"

definition verification_failed_msg :: string where
  "verification_failed_msg =
     ''Verification failed. Please email felix@masinov.co with your transaction hash.''"

text \<open>The part of \<open>handler\<close> inside the outer \<open>try\<close>, for a request that passed validation.\<close>

definition verify_and_deliver :: "env \<Rightarrow> string \<Rightarrow> string \<Rightarrow> response \<times> effect list" where
  "verify_and_deliver e email txHash =
     (let call = RpcCall (rpcUrl e) txHash in
      (case fetchTxReceipt e txHash of
        FetchThrows \<Rightarrow> (respond 500 (error_json verification_failed_msg), [call])
      | FetchReturns None \<Rightarrow> (respond 400 (error_json not_found_msg), [call])
      | FetchReturns (Some txReceipt) \<Rightarrow>
          if status txReceipt \<noteq> ''0x1''
          then (respond 400 (error_json not_found_msg), [call])
          else (case verifyUSDCTransfer e txReceipt of
            Inl err \<Rightarrow> (respond 500 (error_json verification_failed_msg), [call])
          | Inr (Invalid reason) \<Rightarrow> (respond 400 (error_json reason), [call])
          | Inr (Valid amount) \<Rightarrow>
              (case emails_send e email of
                 Sent \<Rightarrow> (respond 200 success_json, [call, download_mail email])
               | SendError emailErr \<Rightarrow>
                   (respond 200 success_json, [call, download_mail email])
               | SendFailed emailErr \<Rightarrow>
                   (respond 200 success_json, [call, download_mail email])))))"

text \<open>
  \<open>handler\<close>. \<open>const { email, txHash } = body\<close> stands outside every \<open>try\<close>: on the body
  \<open>null\<close> it throws a TypeError that nothing catches, and the handler sets no status and
  sends no answer (\<open>Inl TypeError\<close>).
\<close>

definition handler :: "env \<Rightarrow> request \<Rightarrow> js_error + response \<times> effect list" where
  "handler e req =
     (if http_method req = ''OPTIONS''
      then Inr (\<lparr>statusCode = 200, headers = cors_headers, payload = None\<rparr>, [])
      else if http_method req \<noteq> ''POST''
      then Inr (respond 405 (error_json ''Method not allowed''), [])
      else (case body req of
        InvalidJson \<Rightarrow> Inr (respond 400 (error_json ''Invalid JSON body''), [])
      | JsonNull \<Rightarrow> Inl TypeError
      | Json (Some email) (Some txHash) \<Rightarrow>
          if email = [] \<or> txHash = []
          then Inr (respond 400 (error_json ''Email and transaction hash are required''), [])
          else if \<not> hashRegex txHash
          then Inr (respond 400 (error_json ''Invalid transaction hash format''), [])
          else if \<not> emailRegex email
          then Inr (respond 400 (error_json ''Invalid email format''), [])
          else Inr (verify_and_deliver e email txHash)
      | Json _ _ \<Rightarrow>
          Inr (respond 400 (error_json ''Email and transaction hash are required''), [])))"

section \<open>The card webhook handler\<close>

text \<open>
  The second module. Its \<open>handler\<close> is named \<open>webhook_handler\<close> here. A request is its
  method and what \<open>stripe.webhooks.constructEvent\<close> makes of the raw body and the
  signature: an exception with a message, or the event.
\<close>

record customer_details =
  email :: "string option"

record session =
  session_id :: string
  amount_total :: int
  customer_details :: "customer_details option"
  customer_email :: "string option"

record event =
  event_type :: string
  object :: session

record webhook_request =
  webhook_method :: string
  constructEvent :: "string + event"

record webhook_response =
  webhook_status :: nat
  webhook_json :: "(string \<times> jval) list"

text \<open>\<open>session.customer_details?.email || session.customer_email\<close>; \<open>None\<close> when the
  result is \<open>undefined\<close>, \<open>null\<close> or the empty string, which is what \<open>!customerEmail\<close> tests.\<close>

definition customerEmail :: "session \<Rightarrow> string option" where
  "customerEmail s =
     (let first = (case customer_details s of None \<Rightarrow> None | Some d \<Rightarrow> email d);
          chosen = (case first of
                      None \<Rightarrow> customer_email s
                    | Some a \<Rightarrow> if a = [] then customer_email s else Some a)
      in case chosen of None \<Rightarrow> None | Some a \<Rightarrow> if a = [] then None else Some a)"

definition webhook_handler ::
  "(string \<Rightarrow> send_result) \<Rightarrow> webhook_request \<Rightarrow> webhook_response \<times> effect list" where
  "webhook_handler send req =
     (if webhook_method req \<noteq> ''POST''
      then (\<lparr>webhook_status = 405, webhook_json = [(''error'', JStr ''Method not allowed'')]\<rparr>, [])
      else (case constructEvent req of
        Inl msg \<Rightarrow>
          (\<lparr>webhook_status = 400, webhook_json = [(''error'', JStr (''Webhook Error: '' @ msg))]\<rparr>, [])
      | Inr ev \<Rightarrow>
          if event_type ev = ''checkout.session.completed''
          then
            (let s = object ev in
             if amount_total s < 2800 \<or> amount_total s > 3100
             then (\<lparr>webhook_status = 200,
                    webhook_json = [(''received'', JBool True), (''skipped'', JBool True)]\<rparr>, [])
             else (case customerEmail s of
               None \<Rightarrow>
                 (\<lparr>webhook_status = 400, webhook_json = [(''error'', JStr ''No customer email'')]\<rparr>,
                  [])
             | Some to \<Rightarrow>
                 (case send to of
                    Sent \<Rightarrow>
                      (\<lparr>webhook_status = 200,
                        webhook_json = [(''received'', JBool True), (''emailSent'', JBool True)]\<rparr>,
                       [download_mail to])
                  | SendError result \<Rightarrow>
                      (\<lparr>webhook_status = 200,
                        webhook_json = [(''received'', JBool True), (''emailSent'', JBool True)]\<rparr>,
                       [download_mail to])
                  | SendFailed message \<Rightarrow>
                      (\<lparr>webhook_status = 500,
                        webhook_json = [(''error'', JStr ''Failed to send email''),
                                        (''details'', JStr message)]\<rparr>,
                       [download_mail to]))))
          else (\<lparr>webhook_status = 200, webhook_json = [(''received'', JBool True)]\<rparr>, [])))"

section \<open>The three checks of the scan, as the specification words them\<close>

text \<open>
  (a) the emitter is the token contract, compared without regard to case; (b) the first
  topic is the Transfer signature; (c) when a receiving wallet is configured, the low 20
  bytes of the third topic equal it, compared without regard to case. A topic is a 32-byte
  word written as \<open>0x\<close> and 64 digits, so its low 20 bytes are what follows the first 26
  characters. A log with no third topic has no destination and fails (c) when a wallet is
  configured.
\<close>

definition emitter_matches :: "log \<Rightarrow> bool" where
  "emitter_matches l = (toLowerCase (address l) = toLowerCase USDC_CONTRACT)"

definition first_topic :: "log \<Rightarrow> string option" where
  "first_topic l = (case topics l of Some (t # ts) \<Rightarrow> Some t | _ \<Rightarrow> None)"

definition third_topic :: "log \<Rightarrow> string option" where
  "third_topic l = (case topics l of Some (t0 # t1 # t2 # ts) \<Rightarrow> Some t2 | _ \<Rightarrow> None)"

definition topic_matches :: "log \<Rightarrow> bool" where
  "topic_matches l = (first_topic l = Some TRANSFER_TOPIC)"

definition destination_matches :: "env \<Rightarrow> log \<Rightarrow> bool" where
  "destination_matches e l =
     (case CRYPTO_RECEIVING_WALLET e of
        None \<Rightarrow> True
      | Some w \<Rightarrow>
          w = [] \<or>
          (case third_topic l of
             None \<Rightarrow> False
           | Some t \<Rightarrow> toLowerCase (''0x'' @ drop 26 t) = toLowerCase w))"

definition qualifies :: "env \<Rightarrow> log \<Rightarrow> bool" where
  "qualifies e l = (emitter_matches l \<and> topic_matches l \<and> destination_matches e l)"

text \<open>A Transfer log of the token contract whose topics have fewer than three entries.\<close>

definition truncated :: "log \<Rightarrow> bool" where
  "truncated l =
     (emitter_matches l \<and> topic_matches l \<and>
      (case topics l of None \<Rightarrow> False | Some ts \<Rightarrow> length ts < 3))"

text \<open>A log the scan goes past without returning: it is not truncated, and it fails a
  check or its amount is above the maximum or not a number.\<close>

definition passed_over :: "env \<Rightarrow> log \<Rightarrow> bool" where
  "passed_over e l =
     (\<not> truncated l \<and>
      (\<not> qualifies e l \<or>
       (case parseInt16 (data l) of None \<Rightarrow> True | Some a \<Rightarrow> a > MAX_AMOUNT)))"

section \<open>Concrete receipts and requests\<close>

text \<open>
  The receiving wallet of the examples is written in mixed case; the node of an example
  environment answers every request with the given receipt, its mail service gives the
  given result, and its \<open>toFixed2\<close> renders 27, the one amount that is rendered below.
  \<open>example_open_env\<close> is the same with no receiving wallet configured.
\<close>

definition example_good :: log where
  "example_good =
     \<lparr>address = ''0x833589fcd6edb6e08f4c7c32d4f71b54bda02913'',
      topics = Some [TRANSFER_TOPIC,
        ''0x0000000000000000000000001111111111111111111111111111111111111111'',
        ''0x000000000000000000000000ABCDEF0123456789abcdef0123456789abcdef01''],
      data = ''0x0000000000000000000000000000000000000000000000000000000001ba8140''\<rparr>"

definition example_low :: log where
  "example_low = example_good\<lparr>data := ''0x19bfcc0''\<rparr>"

definition example_high :: log where
  "example_high = example_good\<lparr>data := ''0x2255100''\<rparr>"

definition example_other :: log where
  "example_other = example_good\<lparr>address := ''0x4200000000000000000000000000000000000006''\<rparr>"

definition example_truncated :: log where
  "example_truncated = example_good\<lparr>topics := Some [TRANSFER_TOPIC]\<rparr>"

definition example_receipt :: "log list \<Rightarrow> receipt" where
  "example_receipt ls = \<lparr>status = ''0x1'', logs = Some ls\<rparr>"

definition example_env :: "receipt option \<Rightarrow> send_result \<Rightarrow> env" where
  "example_env answer sending =
     \<lparr>CRYPTO_RECEIVING_WALLET = Some ''0xAbCdEf0123456789abcdef0123456789ABCDEF01'',
      BASE_RPC_URL = None,
      rpc = (\<lambda>url txHash. FetchReturns answer),
      emails_send = (\<lambda>to. sending),
      toFixed2 = (\<lambda>q. ''27.00'')\<rparr>"

definition example_open_env :: "receipt option \<Rightarrow> send_result \<Rightarrow> env" where
  "example_open_env answer sending =
     (example_env answer sending)\<lparr>CRYPTO_RECEIVING_WALLET := None\<rparr>"

definition example_hash :: string where
  "example_hash = ''0x5c504ed432cb51138bcf09aa5e8a410dd4a1e204ef84bfed1be16dfba1b22060''"

definition example_request :: request where
  "example_request =
     \<lparr>http_method = ''POST'', body = Json (Some ''buyer@example.com'') (Some example_hash)\<rparr>"

definition example_approval :: log where
  "example_approval =
     example_good\<lparr>topics := Some
       [''0x8c5be1e5ebec7d5bd14f71427d1e84f3dd0314c0f7b2291e5b200ac8c7c3b925'',
        ''0x0000000000000000000000001111111111111111111111111111111111111111'',
        ''0x000000000000000000000000abcdef0123456789abcdef0123456789abcdef01'']\<rparr>"

definition example_elsewhere :: log where
  "example_elsewhere =
     example_good\<lparr>topics := Some
       [TRANSFER_TOPIC,
        ''0x0000000000000000000000001111111111111111111111111111111111111111'',
        ''0x0000000000000000000000002222222222222222222222222222222222222222'']\<rparr>"

definition example_failed_receipt :: receipt where
  "example_failed_receipt = \<lparr>status = ''0x0'', logs = Some [example_truncated]\<rparr>"

definition example_session :: session where
  "example_session =
     \<lparr>session_id = ''cs_test_a1'', amount_total = 2900,
      customer_details = Some \<lparr>email = Some ''buyer@example.com''\<rparr>,
      customer_email = None\<rparr>"

definition example_webhook_request :: "session \<Rightarrow> webhook_request" where
  "example_webhook_request s =
     \<lparr>webhook_method = ''POST'',
      constructEvent = Inr \<lparr>event_type = ''checkout.session.completed'', object = s\<rparr>\<rparr>"

definition example_missing_email :: request where
  "example_missing_email = \<lparr>http_method = ''POST'', body = Json None (Some example_hash)\<rparr>"

definition example_bad_hash :: request where
  "example_bad_hash =
     \<lparr>http_method = ''POST'', body = Json (Some ''not-an-address'') (Some ''0x1234'')\<rparr>"

definition example_bad_email :: request where
  "example_bad_email =
     \<lparr>http_method = ''POST'', body = Json (Some ''not-an-address'') (Some example_hash)\<rparr>"

section \<open>The loop body against the three checks\<close>

lemma js_index_0: "js_index ts 0 = (case ts of [] \<Rightarrow> None | t # rest \<Rightarrow> Some t)"
  by (simp add: js_index_def split: list.splits)

lemma js_index_2:
  "js_index ts 2 = (case ts of t0 # t1 # t2 # rest \<Rightarrow> Some t2 | _ \<Rightarrow> None)"
  by (simp add: js_index_def numeral_2_eq_2 split: list.splits)

text \<open>On a 32-byte word, written as 66 characters, what follows the first 26 characters
  is the last 40 digits: the low 20 bytes.\<close>

lemma low_20_bytes: "length t = 66 \<Longrightarrow> drop 26 t = drop (length t - 40) t"
  by simp

lemma toLowerCase_0x: "toLowerCase (''0x'' @ s) = ''0x'' @ toLowerCase s"
  by (simp add: toLowerCase_def toLowerCaseChar_def)

lemma toLowerCase_Nil: "toLowerCase s = [] \<longleftrightarrow> s = []"
  by (simp add: toLowerCase_def)

lemma truncated_iff: "truncated l \<longleftrightarrow> emitter_matches l \<and> topic_matches l \<and> third_topic l = None"
  by (auto simp: truncated_def third_topic_def topic_matches_def first_topic_def
      split: option.splits list.splits)

lemma wallet_check:
  assumes "third_topic l = Some t"
  shows "(RECEIVING_WALLET e \<noteq> [] \<and> ''0x'' @ toLowerCase (drop 26 t) \<noteq> RECEIVING_WALLET e)
           \<longleftrightarrow> \<not> destination_matches e l"
  using assms
  by (auto simp: RECEIVING_WALLET_def destination_matches_def toLowerCase_0x [simplified]
      toLowerCase_Nil split: option.splits)

lemma loop_body_emitter: "\<not> emitter_matches l \<Longrightarrow> loop_body e l = Inr None"
  by (simp add: loop_body_def emitter_matches_def)

lemma loop_body_topic: "\<not> topic_matches l \<Longrightarrow> loop_body e l = Inr None"
  by (auto simp: loop_body_def topic_matches_def first_topic_def js_index_0
      split: option.splits list.splits)

lemma loop_body_truncated: "truncated l \<Longrightarrow> loop_body e l = Inl TypeError"
  by (auto simp: loop_body_def truncated_iff emitter_matches_def topic_matches_def first_topic_def
      third_topic_def js_index_0 js_index_2 split: option.splits list.splits)

lemma loop_body_reaches:
  assumes "emitter_matches l" "topic_matches l" "third_topic l = Some t"
  shows "loop_body e l =
     (if \<not> destination_matches e l then Inr None
      else case parseInt16 (data l) of
        None \<Rightarrow> Inr None
      | Some amount \<Rightarrow>
          if MIN_AMOUNT \<le> amount \<and> amount \<le> MAX_AMOUNT
          then Inr (Some (Valid (of_int amount / 1000000)))
          else if amount < MIN_AMOUNT then Inr (Some (Invalid (below_reason e amount)))
          else Inr None)"
proof -
  from assms obtain t0 t1 rest where ts: "topics l = Some (t0 # t1 # t # rest)"
    by (auto simp: third_topic_def split: option.splits list.splits)
  with assms(2) have t0: "t0 = TRANSFER_TOPIC"
    by (simp add: topic_matches_def first_topic_def)
  have addr: "toLowerCase (address l) = toLowerCase USDC_CONTRACT"
    using assms(1) by (simp add: emitter_matches_def)
  show ?thesis
    using wallet_check [OF assms(3), of e]
    by (simp add: loop_body_def addr ts t0 js_index_0 js_index_2 Let_def)
qed

lemma loop_body_passed_over: "passed_over e l \<Longrightarrow> loop_body e l = Inr None"
proof -
  assume po: "passed_over e l"
  show ?thesis
  proof (cases "emitter_matches l \<and> topic_matches l")
    case False
    then show ?thesis using loop_body_emitter loop_body_topic by blast
  next
    case True
    with po obtain t where t: "third_topic l = Some t"
      by (auto simp: passed_over_def truncated_iff)
    show ?thesis
      using po True
      by (auto simp: loop_body_reaches [OF _ _ t] passed_over_def qualifies_def MAX_AMOUNT_def
          MIN_AMOUNT_def split: option.splits)
  qed
qed

lemma scan_logs_passed_over:
  "\<forall>p\<in>set pre. loop_body e p = Inr None \<Longrightarrow> scan_logs e (pre @ ls) = scan_logs e ls"
  by (induction pre) simp_all

lemma loop_body_returns:
  assumes "loop_body e l = Inr (Some v)"
  shows "qualifies e l \<and> third_topic l \<noteq> None"
proof -
  have em: "emitter_matches l" using assms loop_body_emitter [of l e] by auto
  have tm: "topic_matches l" using assms loop_body_topic [of l e] by auto
  have "\<not> truncated l" using assms loop_body_truncated [of l e] by auto
  with em tm obtain t where t: "third_topic l = Some t" by (auto simp: truncated_iff)
  have "destination_matches e l"
    using assms by (auto simp: loop_body_reaches [OF em tm t] split: if_splits)
  with em tm t show ?thesis by (simp add: qualifies_def)
qed


lemma verify_prefix:
  assumes "logs r = Some (pre @ ls)" and "\<forall>p\<in>set pre. loop_body e p = Inr None"
  shows "verifyUSDCTransfer e r = scan_logs e ls"
  using assms by (simp add: verifyUSDCTransfer_def receipt_logs_def scan_logs_passed_over)

lemma not_qualifies_passed_over: "\<not> truncated p \<and> \<not> qualifies e p \<Longrightarrow> passed_over e p"
  by (simp add: passed_over_def)

lemma qualifies_reaches:
  assumes "qualifies e l" and "\<not> truncated l"
  shows "loop_body e l =
     (case parseInt16 (data l) of
        None \<Rightarrow> Inr None
      | Some amount \<Rightarrow>
          if MIN_AMOUNT \<le> amount \<and> amount \<le> MAX_AMOUNT
          then Inr (Some (Valid (of_int amount / 1000000)))
          else if amount < MIN_AMOUNT then Inr (Some (Invalid (below_reason e amount)))
          else Inr None)"
proof -
  from assms obtain t where t: "third_topic l = Some t"
    by (auto simp: qualifies_def truncated_iff)
  from assms(1) show ?thesis
    by (simp add: qualifies_def loop_body_reaches [OF _ _ t])
qed

section \<open>The two patterns as languages\<close>

text \<open>
  The executable tests of the model accept the strings the two regular expressions
  describe: \<open>0x\<close> followed by 64 hexadecimal digits; and an at sign between two parts free
  of white space and at signs, the first not empty, the second split by a dot into two
  parts that are not empty.
\<close>

lemma emailChar_dot: "emailChar CHR ''.''"
  by (simp add: emailChar_def isWhiteSpace_def)

lemma emailChar_at: "\<not> emailChar CHR ''@''"
  by (simp add: emailChar_def)

lemma hashRegex_language:
  "hashRegex s \<longleftrightarrow> (\<exists>ds. s = ''0x'' @ ds \<and> length ds = 64 \<and> list_all isHexDigit ds)"
proof
  assume h: "hashRegex s"
  have "take 2 s @ drop 2 s = s" by (rule append_take_drop_id)
  with h have "s = ''0x'' @ drop 2 s" by (simp add: hashRegex_def)
  moreover from h have "length (drop 2 s) = 64" by (simp add: hashRegex_def)
  moreover from h have "list_all isHexDigit (drop 2 s)" by (simp add: hashRegex_def)
  ultimately show "\<exists>ds. s = ''0x'' @ ds \<and> length ds = 64 \<and> list_all isHexDigit ds"
    by blast
next
  assume "\<exists>ds. s = ''0x'' @ ds \<and> length ds = 64 \<and> list_all isHexDigit ds"
  then show "hashRegex s" by (auto simp: hashRegex_def)
qed

lemma emailRegex_language:
  "emailRegex s \<longleftrightarrow>
     (\<exists>a b c. s = a @ ''@'' @ b @ ''.'' @ c \<and> a \<noteq> [] \<and> b \<noteq> [] \<and> c \<noteq> [] \<and>
        list_all emailChar a \<and> list_all emailChar b \<and> list_all emailChar c)"
proof
  assume r: "emailRegex s"
  define a where "a = takeWhile emailChar s"
  from r obtain d where d: "dropWhile emailChar s = CHR ''@'' # d"
    and dall: "list_all emailChar d" and dot: "CHR ''.'' \<in> set (butlast (tl d))"
    by (auto simp: emailRegex_def split: list.splits)
  from r have a0: "a \<noteq> []" by (simp add: emailRegex_def a_def)
  have s: "s = a @ CHR ''@'' # d"
    using takeWhile_dropWhile_id [of emailChar s] d by (simp add: a_def)
  have aall: "list_all emailChar a"
    by (simp add: a_def list_all_iff) (meson set_takeWhileD)
  from dot obtain u v where uv: "butlast (tl d) = u @ CHR ''.'' # v"
    by (meson split_list)
  then have tl0: "tl d \<noteq> []" by auto
  then have d0: "d \<noteq> []" by auto
  have tld: "tl d = u @ CHR ''.'' # v @ [last (tl d)]"
    using append_butlast_last_id [OF tl0] uv by simp
  have dd: "d = (hd d # u) @ ''.'' @ (v @ [last (tl d)])"
    using d0 tld by (metis append_Cons append_Nil list.collapse)
  have "list_all emailChar (hd d # u)" "list_all emailChar (v @ [last (tl d)])"
    using dall by (subst (asm) dd, simp)+
  then show "\<exists>a b c. s = a @ ''@'' @ b @ ''.'' @ c \<and> a \<noteq> [] \<and> b \<noteq> [] \<and> c \<noteq> [] \<and>
        list_all emailChar a \<and> list_all emailChar b \<and> list_all emailChar c"
    using s dd a0 aall
    by (intro exI [of _ a] exI [of _ "hd d # u"] exI [of _ "v @ [last (tl d)]"]) auto
next
  assume "\<exists>a b c. s = a @ ''@'' @ b @ ''.'' @ c \<and> a \<noteq> [] \<and> b \<noteq> [] \<and> c \<noteq> [] \<and>
        list_all emailChar a \<and> list_all emailChar b \<and> list_all emailChar c"
  then obtain a b c where s: "s = a @ CHR ''@'' # b @ CHR ''.'' # c"
    and ne: "a \<noteq> []" "b \<noteq> []" "c \<noteq> []"
    and al: "list_all emailChar a" "list_all emailChar b" "list_all emailChar c"
    by auto
  have tw: "takeWhile emailChar s = a"
    using al(1) by (simp add: s takeWhile_tail [of emailChar "CHR ''@''"] emailChar_at list_all_iff)
  have dw: "dropWhile emailChar s = CHR ''@'' # b @ CHR ''.'' # c"
    using al(1) by (simp add: s dropWhile_append2 list_all_iff emailChar_at)
  obtain b0 b' where b: "b = b0 # b'" using ne(2) by (cases b) auto
  have bl: "butlast (b' @ CHR ''.'' # c) = b' @ CHR ''.'' # butlast c"
    using ne(3) by (simp add: butlast_append)
  show "emailRegex s"
    using ne(1) al by (simp add: emailRegex_def tw dw b bl emailChar_dot)
qed

section \<open>The handler after validation\<close>

lemma hashRegex_nonempty: "hashRegex tx \<Longrightarrow> tx \<noteq> []"
  by (auto simp: hashRegex_def)

lemma emailRegex_nonempty: "emailRegex em \<Longrightarrow> em \<noteq> []"
  by (auto simp: emailRegex_def)

lemma handler_validated:
  assumes "hashRegex tx" and "emailRegex em"
  shows "handler e \<lparr>http_method = ''POST'', body = Json (Some em) (Some tx)\<rparr>
           = Inr (verify_and_deliver e em tx)"
  using assms hashRegex_nonempty [OF assms(1)] emailRegex_nonempty [OF assms(2)]
  by (simp add: handler_def)

lemma deliver_after_verification:
  assumes "fetchTxReceipt e tx = FetchReturns (Some r)" and "status r = ''0x1''"
  shows "verify_and_deliver e em tx =
     (case verifyUSDCTransfer e r of
        Inl err \<Rightarrow> (respond 500 (error_json verification_failed_msg), [RpcCall (rpcUrl e) tx])
      | Inr (Invalid reason) \<Rightarrow> (respond 400 (error_json reason), [RpcCall (rpcUrl e) tx])
      | Inr (Valid amount) \<Rightarrow>
          (respond 200 success_json, [RpcCall (rpcUrl e) tx, download_mail em]))"
  using assms
  by (cases "emails_send e em")
    (simp_all add: verify_and_deliver_def Let_def split: sum.splits verification.splits)

section \<open>Claims about the scan of the logs\<close>

text \<open>
  C1, amended. Take a receipt whose logs are \<open>pre @ l # post\<close>, where no log of \<open>pre\<close>
  passes the three checks, \<open>l\<close> passes them, and neither \<open>l\<close> nor a log of \<open>pre\<close> is a
  truncated Transfer log of the token contract. If the data of \<open>l\<close> decodes to an amount
  strictly below 28,000,000, the verification is invalid with the amount-below-required
  reason, whatever \<open>post\<close> holds. If it decodes to an amount strictly above 35,000,000,
  the log is neither accepted nor rejected: the result is that of scanning \<open>post\<close>.
\<close>

theorem verify_below_minimum:
  assumes "logs r = Some (pre @ l # post)"
    and "\<forall>p\<in>set pre. \<not> truncated p \<and> \<not> qualifies e p"
    and "qualifies e l" and "\<not> truncated l"
    and "parseInt16 (data l) = Some a"
  shows "(a < MIN_AMOUNT \<longrightarrow> verifyUSDCTransfer e r = Inr (Invalid (below_reason e a))) \<and>
         (a > MAX_AMOUNT \<longrightarrow>
            verifyUSDCTransfer e r = verifyUSDCTransfer e (r\<lparr>logs := Some post\<rparr>))"
proof -
  have pre: "\<forall>p\<in>set pre. loop_body e p = Inr None"
    using assms(2) not_qualifies_passed_over loop_body_passed_over by blast
  have scan: "verifyUSDCTransfer e r = scan_logs e (l # post)"
    using verify_prefix [OF assms(1) pre] .
  have body: "loop_body e l =
      (if MIN_AMOUNT \<le> a \<and> a \<le> MAX_AMOUNT then Inr (Some (Valid (of_int a / 1000000)))
       else if a < MIN_AMOUNT then Inr (Some (Invalid (below_reason e a))) else Inr None)"
    using qualifies_reaches [OF assms(3,4)] assms(5) by simp
  have post: "verifyUSDCTransfer e (r\<lparr>logs := Some post\<rparr>) = scan_logs e post"
    by (simp add: verifyUSDCTransfer_def receipt_logs_def)
  show ?thesis
    by (simp add: scan body post MIN_AMOUNT_def MAX_AMOUNT_def)
qed

text \<open>The theorem at a receipt of three logs: a log of another contract, then a
  transfer of 27,000,000 (respectively 36,000,000), then a transfer of 29,000,000.\<close>

theorem verify_below_minimum_witness:
  "verifyUSDCTransfer (example_env None Sent)
      (example_receipt [example_other, example_low, example_good])
     = Inr (Invalid (below_reason (example_env None Sent) 27000000)) \<and>
   verifyUSDCTransfer (example_env None Sent)
      (example_receipt [example_other, example_high, example_good])
     = verifyUSDCTransfer (example_env None Sent)
         ((example_receipt [example_other, example_high, example_good])\<lparr>logs := Some [example_good]\<rparr>)"
proof -
  let ?e = "example_env None Sent"
  have pre: "\<forall>p\<in>set [example_other]. \<not> truncated p \<and> \<not> qualifies ?e p" by code_simp
  have l1: "logs (example_receipt [example_other, example_low, example_good])
      = Some ([example_other] @ example_low # [example_good])"
    by (simp add: example_receipt_def)
  have l2: "logs (example_receipt [example_other, example_high, example_good])
      = Some ([example_other] @ example_high # [example_good])"
    by (simp add: example_receipt_def)
  have q1: "qualifies ?e example_low" by code_simp
  have q2: "qualifies ?e example_high" by code_simp
  have t1: "\<not> truncated example_low" by code_simp
  have t2: "\<not> truncated example_high" by code_simp
  have a1: "parseInt16 (data example_low) = Some 27000000" by code_simp
  have a2: "parseInt16 (data example_high) = Some 36000000" by code_simp
  show ?thesis
    using verify_below_minimum [OF l1 pre q1 t1 a1] verify_below_minimum [OF l2 pre q2 t2 a2]
    by (simp add: MIN_AMOUNT_def MAX_AMOUNT_def)
qed

text \<open>
  C1 as stated fails where a truncated log comes first: with a wallet configured the
  truncated log fails the destination check, the first log passing the checks decodes to
  27,000,000, and yet the scan raises instead of reporting the amount as too low.
\<close>

theorem verify_below_minimum_counterexample:
  "\<not> qualifies (example_env None Sent) example_truncated \<and>
   qualifies (example_env None Sent) example_low \<and>
   parseInt16 (data example_low) = Some 27000000 \<and>
   verifyUSDCTransfer (example_env None Sent) (example_receipt [example_truncated, example_low])
     = Inl TypeError"
  by code_simp

text \<open>
  C3, amended. Take a receipt whose logs are \<open>pre @ l # post\<close>, where the scan goes past
  every log of \<open>pre\<close> (each fails a check, or passes them with an amount above the maximum
  or no amount, and none is truncated), and \<open>l\<close> passes the three checks, has its third
  topic, and decodes to an amount within [28,000,000, 35,000,000]. Then the verification
  is valid with the amount divided by 1,000,000, and for a request that passed validation
  and a receipt of status \<open>0x1\<close> the handler answers 200 with \<open>success: true\<close>, the fixed
  download address and the fixed thank-you address, after one mail.
\<close>

theorem scan_reaches_valid_transfer:
  assumes "logs r = Some (pre @ l # post)"
    and "\<forall>p\<in>set pre. passed_over e p"
    and "qualifies e l" and "\<not> truncated l"
    and "parseInt16 (data l) = Some a"
    and "MIN_AMOUNT \<le> a" and "a \<le> MAX_AMOUNT"
  shows "verifyUSDCTransfer e r = Inr (Valid (of_int a / 1000000)) \<and>
         (hashRegex tx \<and> emailRegex em \<and> fetchTxReceipt e tx = FetchReturns (Some r) \<and>
          status r = ''0x1'' \<longrightarrow>
            handler e \<lparr>http_method = ''POST'', body = Json (Some em) (Some tx)\<rparr>
              = Inr (respond 200 success_json, [RpcCall (rpcUrl e) tx, download_mail em]))"
proof -
  have pre: "\<forall>p\<in>set pre. loop_body e p = Inr None"
    using assms(2) loop_body_passed_over by blast
  have body: "loop_body e l = Inr (Some (Valid (of_int a / 1000000)))"
    using qualifies_reaches [OF assms(3,4)] assms(5,6,7) by simp
  have v: "verifyUSDCTransfer e r = Inr (Valid (of_int a / 1000000))"
    using verify_prefix [OF assms(1) pre] body by simp
  show ?thesis
    using v by (auto simp: handler_validated deliver_after_verification)
qed

text \<open>
  The theorem at a receipt holding a log of another contract, a transfer of 36,000,000 and
  a transfer of 29,000,000: the amount reported is 29.
\<close>

theorem scan_reaches_valid_transfer_witness:
  "verifyUSDCTransfer
      (example_env (Some (example_receipt [example_other, example_high, example_good])) Sent)
      (example_receipt [example_other, example_high, example_good]) = Inr (Valid 29) \<and>
   handler (example_env (Some (example_receipt [example_other, example_high, example_good])) Sent)
      example_request
     = Inr (respond 200 success_json,
        [RpcCall ''https://mainnet.base.org'' example_hash, download_mail ''buyer@example.com''])"
proof -
  let ?r = "example_receipt [example_other, example_high, example_good]"
  let ?e = "example_env (Some ?r) Sent"
  have l: "logs ?r = Some ([example_other, example_high] @ example_good # [])"
    by (simp add: example_receipt_def)
  have pre: "\<forall>p\<in>set [example_other, example_high]. passed_over ?e p" by code_simp
  have q: "qualifies ?e example_good" by code_simp
  have t: "\<not> truncated example_good" by code_simp
  have a: "parseInt16 (data example_good) = Some 29000000" by code_simp
  have b: "MIN_AMOUNT \<le> 29000000" "29000000 \<le> MAX_AMOUNT"
    by (simp_all add: MIN_AMOUNT_def MAX_AMOUNT_def)
  have h: "hashRegex example_hash" by code_simp
  have m: "emailRegex ''buyer@example.com''" by code_simp
  have f: "fetchTxReceipt ?e example_hash = FetchReturns (Some ?r)"
    by (simp add: fetchTxReceipt_def example_env_def)
  have s: "status ?r = ''0x1''" by (simp add: example_receipt_def)
  have u: "rpcUrl ?e = ''https://mainnet.base.org''" by (simp add: rpcUrl_def example_env_def)
  show ?thesis
    using scan_reaches_valid_transfer [OF l pre q t a b, of example_hash "''buyer@example.com''"]
      h m f s u
    by (simp add: example_request_def)
qed

text \<open>
  C3 as stated fails where an earlier matching log is below the minimum: the second log
  matches and decodes to 29,000,000, and the result is invalid, answered with 400. It also
  fails at a matching log without its third topic: with no wallet configured a log holding
  the Transfer topic alone passes the three checks and decodes to 29,000,000, and the scan
  raises.
\<close>

theorem scan_reaches_valid_transfer_counterexample:
  "qualifies (example_env (Some (example_receipt [example_low, example_good])) Sent) example_good \<and>
   parseInt16 (data example_good) = Some 29000000 \<and>
   verifyUSDCTransfer (example_env (Some (example_receipt [example_low, example_good])) Sent)
       (example_receipt [example_low, example_good])
     = Inr (Invalid ''Payment amount ($27.00) is below the required amount.'') \<and>
   handler (example_env (Some (example_receipt [example_low, example_good])) Sent) example_request
     = Inr (respond 400 (error_json ''Payment amount ($27.00) is below the required amount.''),
            [RpcCall ''https://mainnet.base.org'' example_hash]) \<and>
   qualifies (example_open_env None Sent) example_truncated \<and>
   parseInt16 (data example_truncated) = Some 29000000 \<and>
   verifyUSDCTransfer (example_open_env None Sent) (example_receipt [example_truncated])
     = Inl TypeError"
  by code_simp

text \<open>
  C5, amended. The logs are scanned in order. A log makes the scan return only if it
  passes all three checks: emitter equal to the token contract and destination equal to
  the configured wallet, both without regard to case, and first topic equal to the
  Transfer signature. Logs that fail a check and are not truncated Transfer logs of the
  token contract are skipped: a receipt that starts with such logs is verified as the
  receipt without them.
\<close>

theorem failing_logs_skipped:
  "(loop_body e l = Inr (Some v) \<longrightarrow> qualifies e l) \<and>
   (logs r = Some (pre @ ls) \<and> (\<forall>p\<in>set pre. \<not> qualifies e p \<and> \<not> truncated p) \<longrightarrow>
      verifyUSDCTransfer e r = verifyUSDCTransfer e (r\<lparr>logs := Some ls\<rparr>))"
proof (intro conjI impI)
  assume "loop_body e l = Inr (Some v)"
  then show "qualifies e l" using loop_body_returns by blast
next
  assume a: "logs r = Some (pre @ ls) \<and> (\<forall>p\<in>set pre. \<not> qualifies e p \<and> \<not> truncated p)"
  then have pre: "\<forall>p\<in>set pre. loop_body e p = Inr None"
    using not_qualifies_passed_over loop_body_passed_over by blast
  have "verifyUSDCTransfer e r = scan_logs e ls"
    using verify_prefix [OF _ pre] a by blast
  then show "verifyUSDCTransfer e r = verifyUSDCTransfer e (r\<lparr>logs := Some ls\<rparr>)"
    by (simp add: verifyUSDCTransfer_def receipt_logs_def)
qed

text \<open>
  The theorem at a receipt whose first three logs fail the emitter check, the topic check
  and the destination check, one each, followed by a transfer of 29,000,000.
\<close>

theorem failing_logs_skipped_witness:
  "loop_body (example_env None Sent) example_good = Inr (Some (Valid 29)) \<and>
   qualifies (example_env None Sent) example_good \<and>
   \<not> emitter_matches example_other \<and> \<not> topic_matches example_approval \<and>
   \<not> destination_matches (example_env None Sent) example_elsewhere \<and>
   verifyUSDCTransfer (example_env None Sent)
       (example_receipt [example_other, example_approval, example_elsewhere, example_good])
     = verifyUSDCTransfer (example_env None Sent)
         ((example_receipt [example_other, example_approval, example_elsewhere, example_good])
            \<lparr>logs := Some [example_good]\<rparr>)"
proof -
  let ?e = "example_env None Sent"
  let ?pre = "[example_other, example_approval, example_elsewhere]"
  let ?r = "example_receipt [example_other, example_approval, example_elsewhere, example_good]"
  have b: "loop_body ?e example_good = Inr (Some (Valid 29))" by code_simp
  have pre: "\<forall>p\<in>set ?pre. \<not> qualifies ?e p \<and> \<not> truncated p" by code_simp
  have l: "logs ?r = Some (?pre @ [example_good])" by (simp add: example_receipt_def)
  have n: "\<not> emitter_matches example_other" "\<not> topic_matches example_approval"
    "\<not> destination_matches ?e example_elsewhere"
    by code_simp+
  show ?thesis
    using failing_logs_skipped [of ?e example_good "Valid 29" ?r ?pre "[example_good]"] b pre l n
    by simp
qed

text \<open>
  C5 as stated fails at a truncated log: with a wallet configured it fails the destination
  check, yet it is not skipped. The receipt holding it before a valid transfer raises,
  where the valid transfer alone is accepted.
\<close>

theorem failing_logs_skipped_counterexample:
  "emitter_matches example_truncated \<and> topic_matches example_truncated \<and>
   \<not> destination_matches (example_env None Sent) example_truncated \<and>
   verifyUSDCTransfer (example_env None Sent) (example_receipt [example_truncated, example_good])
     = Inl TypeError \<and>
   verifyUSDCTransfer (example_env None Sent) (example_receipt [example_good])
     = Inr (Valid 29)"
  by code_simp

text \<open>
  C8, amended. If the scan goes past every log of the receipt (each fails a check, or
  passes them with an amount above the maximum or no amount, and none is a truncated
  Transfer log of the token contract), the verification is invalid with the
  no-valid-transfer reason; so it is for empty and for absent logs. For a request that
  passed validation and a receipt of status \<open>0x1\<close> the handler answers 400 with that reason
  and sends no mail.
\<close>

theorem no_transfer_found:
  assumes "\<forall>p\<in>set (receipt_logs r). passed_over e p"
  shows "verifyUSDCTransfer e r = Inr (Invalid no_transfer_reason) \<and>
         (hashRegex tx \<and> emailRegex em \<and> fetchTxReceipt e tx = FetchReturns (Some r) \<and>
          status r = ''0x1'' \<longrightarrow>
            handler e \<lparr>http_method = ''POST'', body = Json (Some em) (Some tx)\<rparr>
              = Inr (respond 400 (error_json no_transfer_reason), [RpcCall (rpcUrl e) tx]))"
proof -
  have pre: "\<forall>p\<in>set (receipt_logs r). loop_body e p = Inr None"
    using assms loop_body_passed_over by blast
  have v: "verifyUSDCTransfer e r = Inr (Invalid no_transfer_reason)"
    using scan_logs_passed_over [OF pre, of "[]"] by (simp add: verifyUSDCTransfer_def)
  show ?thesis
    using v by (auto simp: handler_validated deliver_after_verification)
qed

text \<open>
  The theorem at absent logs, at empty logs, and at a receipt holding a log of another
  contract and two transfers of 36,000,000.
\<close>

theorem no_transfer_found_witness:
  "verifyUSDCTransfer (example_env None Sent) \<lparr>status = ''0x1'', logs = None\<rparr>
     = Inr (Invalid no_transfer_reason) \<and>
   verifyUSDCTransfer (example_env None Sent) (example_receipt [])
     = Inr (Invalid no_transfer_reason) \<and>
   verifyUSDCTransfer
       (example_env (Some (example_receipt [example_other, example_high, example_high])) Sent)
       (example_receipt [example_other, example_high, example_high])
     = Inr (Invalid no_transfer_reason) \<and>
   handler (example_env (Some (example_receipt [example_other, example_high, example_high])) Sent)
       example_request
     = Inr (respond 400 (error_json no_transfer_reason),
        [RpcCall ''https://mainnet.base.org'' example_hash])"
proof -
  let ?r = "example_receipt [example_other, example_high, example_high]"
  let ?e = "example_env (Some ?r) Sent"
  have p0: "\<forall>p\<in>set (receipt_logs \<lparr>status = ''0x1'', logs = None\<rparr>).
      passed_over (example_env None Sent) p"
    by (simp add: receipt_logs_def)
  have p1: "\<forall>p\<in>set (receipt_logs (example_receipt [])). passed_over (example_env None Sent) p"
    by (simp add: receipt_logs_def example_receipt_def)
  have p2: "\<forall>p\<in>set (receipt_logs ?r). passed_over ?e p" by code_simp
  have h: "hashRegex example_hash" by code_simp
  have m: "emailRegex ''buyer@example.com''" by code_simp
  have f: "fetchTxReceipt ?e example_hash = FetchReturns (Some ?r)"
    by (simp add: fetchTxReceipt_def example_env_def)
  have s: "status ?r = ''0x1''" by (simp add: example_receipt_def)
  have u: "rpcUrl ?e = ''https://mainnet.base.org''" by (simp add: rpcUrl_def example_env_def)
  show ?thesis
    using no_transfer_found [OF p0] no_transfer_found [OF p1]
      no_transfer_found [OF p2, of example_hash "''buyer@example.com''"] h m f s u
    by (simp add: example_request_def)
qed

text \<open>
  C8 as stated fails at a receipt whose only log is truncated: with a wallet configured no
  log passes the three checks, and the answer is 500, not 400.
\<close>

theorem no_transfer_found_counterexample:
  "\<not> qualifies (example_env (Some (example_receipt [example_truncated])) Sent) example_truncated \<and>
   verifyUSDCTransfer (example_env (Some (example_receipt [example_truncated])) Sent)
       (example_receipt [example_truncated]) = Inl TypeError \<and>
   handler (example_env (Some (example_receipt [example_truncated])) Sent) example_request
     = Inr (respond 500 (error_json verification_failed_msg),
            [RpcCall ''https://mainnet.base.org'' example_hash])"
  by code_simp

text \<open>
  C10, amended. Take a receipt whose logs are \<open>pre @ l # post\<close>, where the scan goes past
  every log of \<open>pre\<close> and \<open>l\<close> is a Transfer log of the token contract with fewer than three
  topics. Then deriving the destination raises, and for a request that passed validation
  and a receipt of status \<open>0x1\<close> the handler answers with the generic 500 error and sends
  no mail.
\<close>

theorem truncated_log_raises:
  assumes "logs r = Some (pre @ l # post)"
    and "\<forall>p\<in>set pre. passed_over e p"
    and "truncated l"
  shows "verifyUSDCTransfer e r = Inl TypeError \<and>
         (hashRegex tx \<and> emailRegex em \<and> fetchTxReceipt e tx = FetchReturns (Some r) \<and>
          status r = ''0x1'' \<longrightarrow>
            handler e \<lparr>http_method = ''POST'', body = Json (Some em) (Some tx)\<rparr>
              = Inr (respond 500 (error_json verification_failed_msg), [RpcCall (rpcUrl e) tx]))"
proof -
  have pre: "\<forall>p\<in>set pre. loop_body e p = Inr None"
    using assms(2) loop_body_passed_over by blast
  have v: "verifyUSDCTransfer e r = Inl TypeError"
    using verify_prefix [OF assms(1) pre] loop_body_truncated [OF assms(3)] by simp
  show ?thesis
    using v by (auto simp: handler_validated deliver_after_verification)
qed

text \<open>
  The theorem at a receipt holding a transfer of 36,000,000, a truncated log and a
  transfer of 29,000,000.
\<close>

theorem truncated_log_raises_witness:
  "truncated example_truncated \<and>
   verifyUSDCTransfer
       (example_env (Some (example_receipt [example_high, example_truncated, example_good])) Sent)
       (example_receipt [example_high, example_truncated, example_good]) = Inl TypeError \<and>
   handler
       (example_env (Some (example_receipt [example_high, example_truncated, example_good])) Sent)
       example_request
     = Inr (respond 500 (error_json verification_failed_msg),
        [RpcCall ''https://mainnet.base.org'' example_hash])"
proof -
  let ?r = "example_receipt [example_high, example_truncated, example_good]"
  let ?e = "example_env (Some ?r) Sent"
  have l: "logs ?r = Some ([example_high] @ example_truncated # [example_good])"
    by (simp add: example_receipt_def)
  have pre: "\<forall>p\<in>set [example_high]. passed_over ?e p" by code_simp
  have t: "truncated example_truncated" by code_simp
  have h: "hashRegex example_hash" by code_simp
  have m: "emailRegex ''buyer@example.com''" by code_simp
  have f: "fetchTxReceipt ?e example_hash = FetchReturns (Some ?r)"
    by (simp add: fetchTxReceipt_def example_env_def)
  have s: "status ?r = ''0x1''" by (simp add: example_receipt_def)
  have u: "rpcUrl ?e = ''https://mainnet.base.org''" by (simp add: rpcUrl_def example_env_def)
  show ?thesis
    using truncated_log_raises [OF l pre t, of example_hash "''buyer@example.com''"] t h m f s u
    by (simp add: example_request_def)
qed

text \<open>
  C10 as stated fails where a valid transfer precedes the truncated log: the scan returns
  at the valid transfer and the answer is 200.
\<close>

theorem truncated_log_raises_counterexample:
  "truncated example_truncated \<and>
   verifyUSDCTransfer
       (example_env (Some (example_receipt [example_good, example_truncated])) Sent)
       (example_receipt [example_good, example_truncated]) = Inr (Valid 29) \<and>
   handler (example_env (Some (example_receipt [example_good, example_truncated])) Sent)
       example_request
     = Inr (respond 200 success_json,
            [RpcCall ''https://mainnet.base.org'' example_hash,
             download_mail ''buyer@example.com''])"
  by code_simp

section \<open>Claims about the crypto request handler\<close>

text \<open>
  Validation of a POST request whose body is not \<open>null\<close>. A missing or empty \<open>email\<close> or
  \<open>txHash\<close>, a \<open>txHash\<close> that is not \<open>0x\<close> and 64 hexadecimal digits, and an \<open>email\<close> that
  fails the address pattern are each answered with 400 and their own reason, and no
  outbound call is made. The checks run in this order and the first failure decides: the
  hash reason is given whatever the email is, the email reason only for a well-formed hash.
\<close>

lemma handler_validation:
  assumes "http_method req = ''POST''" and "body req \<noteq> JsonNull"
  shows "((\<forall>m h. body req = Json (Some m) (Some h) \<longrightarrow> \<not> hashRegex h \<or> \<not> emailRegex m) \<longrightarrow>
            (\<exists>answer. handler e req = Inr (answer, []) \<and> statusCode answer = 400)) \<and>
         (body req = Json em tx \<and>
          (em = None \<or> em = Some [] \<or> tx = None \<or> tx = Some []) \<longrightarrow>
            handler e req
              = Inr (respond 400 (error_json ''Email and transaction hash are required''), [])) \<and>
         (body req = Json (Some m) (Some h) \<and> m \<noteq> [] \<and> h \<noteq> [] \<and> \<not> hashRegex h \<longrightarrow>
            handler e req
              = Inr (respond 400 (error_json ''Invalid transaction hash format''), [])) \<and>
         (body req = Json (Some m) (Some h) \<and> m \<noteq> [] \<and> hashRegex h \<and> \<not> emailRegex m \<longrightarrow>
            handler e req = Inr (respond 400 (error_json ''Invalid email format''), []))"
proof (intro conjI impI)
  assume a: "\<forall>m h. body req = Json (Some m) (Some h) \<longrightarrow> \<not> hashRegex h \<or> \<not> emailRegex m"
  show "\<exists>answer. handler e req = Inr (answer, []) \<and> statusCode answer = 400"
    using assms a
    by (auto simp: handler_def respond_def split: body.splits option.splits)
next
  assume "body req = Json em tx \<and>
          (em = None \<or> em = Some [] \<or> tx = None \<or> tx = Some [])"
  then show "handler e req
      = Inr (respond 400 (error_json ''Email and transaction hash are required''), [])"
    using assms by (auto simp: handler_def split: option.splits)
next
  assume "body req = Json (Some m) (Some h) \<and> m \<noteq> [] \<and> h \<noteq> [] \<and> \<not> hashRegex h"
  then show "handler e req
      = Inr (respond 400 (error_json ''Invalid transaction hash format''), [])"
    using assms by (simp add: handler_def)
next
  assume "body req = Json (Some m) (Some h) \<and> m \<noteq> [] \<and> hashRegex h \<and> \<not> emailRegex m"
  then show "handler e req = Inr (respond 400 (error_json ''Invalid email format''), [])"
    using assms hashRegex_nonempty [of h] by (simp add: handler_def)
qed

text \<open>The lemma at a request without email, at one whose hash and email are both malformed
  (the hash reason wins), and at one whose email alone is malformed.\<close>

lemma handler_validation_examples:
  "handler (example_env None Sent) example_missing_email
     = Inr (respond 400 (error_json ''Email and transaction hash are required''), []) \<and>
   \<not> hashRegex ''0x1234'' \<and> \<not> emailRegex ''not-an-address'' \<and>
   handler (example_env None Sent) example_bad_hash
     = Inr (respond 400 (error_json ''Invalid transaction hash format''), []) \<and>
   hashRegex example_hash \<and>
   handler (example_env None Sent) example_bad_email
     = Inr (respond 400 (error_json ''Invalid email format''), [])"
proof -
  let ?e = "example_env None Sent"
  have h: "hashRegex example_hash" by code_simp
  have nh: "\<not> hashRegex ''0x1234''" by code_simp
  have nm: "\<not> emailRegex ''not-an-address''" by code_simp
  have a: "handler ?e example_missing_email
      = Inr (respond 400 (error_json ''Email and transaction hash are required''), [])"
    using handler_validation
      [where req = example_missing_email and e = ?e and em = None and tx = "Some example_hash"]
    by (simp add: example_missing_email_def)
  have b: "handler ?e example_bad_hash
      = Inr (respond 400 (error_json ''Invalid transaction hash format''), [])"
    using handler_validation
      [where req = example_bad_hash and e = ?e and m = "''not-an-address''" and h = "''0x1234''"]
      nh
    by (simp add: example_bad_hash_def)
  have c: "handler ?e example_bad_email
      = Inr (respond 400 (error_json ''Invalid email format''), [])"
    using handler_validation
      [where req = example_bad_email and e = ?e and m = "''not-an-address''" and h = example_hash]
      h nm
    by (simp add: example_bad_email_def)
  show ?thesis using a b c h nh nm by simp
qed

text \<open>
  C4. The claim: every POST request whose \<open>txHash\<close> or \<open>email\<close> is missing or malformed is
  answered 400 with a specific reason, with no outbound call. The code reaches that for
  every body but one (the lemma above). A body that parses to \<open>null\<close> has neither field,
  and there the destructuring, which stands after the \<open>try\<close> that answers 400 to a body
  that is not JSON, throws: the handler gives no answer at all, for every environment.
\<close>

theorem handler_null_body:
  "handler e \<lparr>http_method = ''POST'', body = JsonNull\<rparr> = Inl TypeError"
  by (simp add: handler_def)

text \<open>
  C7. For a request that passed validation, if the node returns no receipt, or a receipt
  whose status is not \<open>0x1\<close>, the handler answers 400 with the not-found-or-failed message.
  The only outbound call is the JSON-RPC request: no mail is sent, and the answer does not
  depend on the logs of the receipt.
\<close>

theorem receipt_missing_or_failed:
  assumes "hashRegex tx" and "emailRegex em"
    and "fetchTxReceipt e tx = FetchReturns answer"
    and "case answer of None \<Rightarrow> True | Some r \<Rightarrow> status r \<noteq> ''0x1''"
  shows "handler e \<lparr>http_method = ''POST'', body = Json (Some em) (Some tx)\<rparr>
           = Inr (respond 400 (error_json not_found_msg), [RpcCall (rpcUrl e) tx])"
  using assms(3,4)
  by (simp add: handler_validated [OF assms(1,2)] verify_and_deliver_def split: option.splits)

text \<open>
  The theorem at a node returning \<open>null\<close>, and at a receipt of status \<open>0x0\<close> whose only log
  is one the scan would raise on.
\<close>

theorem receipt_missing_or_failed_witness:
  "handler (example_env None Sent) example_request
     = Inr (respond 400 (error_json not_found_msg),
        [RpcCall ''https://mainnet.base.org'' example_hash]) \<and>
   status example_failed_receipt \<noteq> ''0x1'' \<and>
   handler (example_env (Some example_failed_receipt) Sent) example_request
     = Inr (respond 400 (error_json not_found_msg),
        [RpcCall ''https://mainnet.base.org'' example_hash])"
proof -
  let ?e0 = "example_env None Sent"
  let ?e1 = "example_env (Some example_failed_receipt) Sent"
  have h: "hashRegex example_hash" by code_simp
  have m: "emailRegex ''buyer@example.com''" by code_simp
  have f0: "fetchTxReceipt ?e0 example_hash = FetchReturns None"
    by (simp add: fetchTxReceipt_def example_env_def)
  have f1: "fetchTxReceipt ?e1 example_hash = FetchReturns (Some example_failed_receipt)"
    by (simp add: fetchTxReceipt_def example_env_def)
  have s: "status example_failed_receipt \<noteq> ''0x1''" by (simp add: example_failed_receipt_def)
  have c0: "case None :: receipt option of None \<Rightarrow> True | Some r \<Rightarrow> status r \<noteq> ''0x1''" by simp
  have c1: "case Some example_failed_receipt of None \<Rightarrow> True | Some r \<Rightarrow> status r \<noteq> ''0x1''"
    using s by simp
  have u0: "rpcUrl ?e0 = ''https://mainnet.base.org''" by (simp add: rpcUrl_def example_env_def)
  have u1: "rpcUrl ?e1 = ''https://mainnet.base.org''" by (simp add: rpcUrl_def example_env_def)
  show ?thesis
    using receipt_missing_or_failed [OF h m f0 c0] receipt_missing_or_failed [OF h m f1 c1] s u0 u1
    by (simp add: example_request_def)
qed

text \<open>
  C9. For a request that passed validation, a receipt of status \<open>0x1\<close> and a valid
  transfer, a failing mail dispatch does not block the answer, whether the dispatch throws
  or resolves to an error: the handler returns 200 with \<open>success: true\<close>, the fixed
  download address and the fixed thank-you address.
\<close>

theorem email_failure_does_not_block:
  assumes "hashRegex tx" and "emailRegex em"
    and "fetchTxReceipt e tx = FetchReturns (Some r)" and "status r = ''0x1''"
    and "verifyUSDCTransfer e r = Inr (Valid a)"
    and "emails_send e em \<noteq> Sent"
  shows "handler e \<lparr>http_method = ''POST'', body = Json (Some em) (Some tx)\<rparr>
           = Inr (\<lparr>statusCode = 200, headers = cors_headers,
                   payload = Some [(''success'', JBool True),
                                   (''downloadUrl'', JStr DOWNLOAD_URL),
                                   (''thankYouUrl'', JStr THANK_YOU_URL),
                                   (''message'', JStr ''Payment verified! Your download is ready.'')]\<rparr>,
                  [RpcCall (rpcUrl e) tx, download_mail em])"
  using assms(3-6)
  by (cases "emails_send e em")
    (simp_all add: handler_validated [OF assms(1,2)] verify_and_deliver_def respond_def
      success_json_def)

text \<open>The theorem at a receipt holding a transfer of 29,000,000, with a mail service that
  throws and with one that resolves to an error.\<close>

theorem email_failure_does_not_block_witness:
  "emails_send (example_env (Some (example_receipt [example_good])) (SendFailed ''timeout''))
      ''buyer@example.com'' \<noteq> Sent \<and>
   handler (example_env (Some (example_receipt [example_good])) (SendFailed ''timeout''))
      example_request
     = Inr (\<lparr>statusCode = 200, headers = cors_headers,
             payload = Some [(''success'', JBool True),
                             (''downloadUrl'', JStr DOWNLOAD_URL),
                             (''thankYouUrl'', JStr THANK_YOU_URL),
                             (''message'', JStr ''Payment verified! Your download is ready.'')]\<rparr>,
            [RpcCall ''https://mainnet.base.org'' example_hash,
             download_mail ''buyer@example.com'']) \<and>
   emails_send (example_env (Some (example_receipt [example_good])) (SendError ''unverified''))
      ''buyer@example.com'' \<noteq> Sent \<and>
   handler (example_env (Some (example_receipt [example_good])) (SendError ''unverified''))
      example_request
     = Inr (\<lparr>statusCode = 200, headers = cors_headers,
             payload = Some [(''success'', JBool True),
                             (''downloadUrl'', JStr DOWNLOAD_URL),
                             (''thankYouUrl'', JStr THANK_YOU_URL),
                             (''message'', JStr ''Payment verified! Your download is ready.'')]\<rparr>,
            [RpcCall ''https://mainnet.base.org'' example_hash,
             download_mail ''buyer@example.com''])"
proof -
  let ?r = "example_receipt [example_good]"
  have h: "hashRegex example_hash" by code_simp
  have m: "emailRegex ''buyer@example.com''" by code_simp
  have s: "status ?r = ''0x1''" by (simp add: example_receipt_def)
  have f: "\<And>x. fetchTxReceipt (example_env (Some ?r) x) example_hash = FetchReturns (Some ?r)"
    by (simp add: fetchTxReceipt_def example_env_def)
  have u: "\<And>x. rpcUrl (example_env (Some ?r) x) = ''https://mainnet.base.org''"
    by (simp add: rpcUrl_def example_env_def)
  have v1: "verifyUSDCTransfer (example_env (Some ?r) (SendFailed ''timeout'')) ?r
      = Inr (Valid 29)" by code_simp
  have v2: "verifyUSDCTransfer (example_env (Some ?r) (SendError ''unverified'')) ?r
      = Inr (Valid 29)" by code_simp
  have d1: "emails_send (example_env (Some ?r) (SendFailed ''timeout'')) ''buyer@example.com''
      \<noteq> Sent" by (simp add: example_env_def)
  have d2: "emails_send (example_env (Some ?r) (SendError ''unverified'')) ''buyer@example.com''
      \<noteq> Sent" by (simp add: example_env_def)
  show ?thesis
    using email_failure_does_not_block [OF h m f s v1 d1]
      email_failure_does_not_block [OF h m f s v2 d2] d1 d2 u
    by (simp add: example_request_def)
qed

section \<open>Claims about the card webhook handler\<close>

text \<open>
  C2, amended. For a verified checkout-completed event with an amount within [2800, 3100]
  and an email present, the handler makes one dispatch. If the dispatch fails without
  throwing (it resolves to an error) the handler still answers 200 with \<open>received\<close> and
  \<open>emailSent\<close>, as it does when the dispatch succeeds. If the dispatch throws, the handler
  answers 500 with the error \<open>Failed to send email\<close> and the thrown message as details.
\<close>

theorem webhook_dispatch_failure:
  assumes "webhook_method req = ''POST''"
    and "constructEvent req = Inr ev"
    and "event_type ev = ''checkout.session.completed''"
    and "2800 \<le> amount_total (object ev)" and "amount_total (object ev) \<le> 3100"
    and "customerEmail (object ev) = Some to"
  shows "(send to = SendFailed msg \<longrightarrow>
            webhook_handler send req
              = (\<lparr>webhook_status = 500,
                  webhook_json = [(''error'', JStr ''Failed to send email''),
                                  (''details'', JStr msg)]\<rparr>,
                 [download_mail to])) \<and>
         (send to = SendError msg \<or> send to = Sent \<longrightarrow>
            webhook_handler send req
              = (\<lparr>webhook_status = 200,
                  webhook_json = [(''received'', JBool True), (''emailSent'', JBool True)]\<rparr>,
                 [download_mail to]))"
  using assms
  by (auto simp: webhook_handler_def Let_def)

text \<open>
  The theorem at a session of 2900 with a confirmed email, with a mail service that
  throws, with one that resolves to an error, and with one that works.
\<close>

theorem webhook_dispatch_failure_witness:
  "webhook_handler (\<lambda>to. SendFailed ''timeout'') (example_webhook_request example_session)
     = (\<lparr>webhook_status = 500,
         webhook_json = [(''error'', JStr ''Failed to send email''),
                         (''details'', JStr ''timeout'')]\<rparr>,
        [download_mail ''buyer@example.com'']) \<and>
   webhook_handler (\<lambda>to. SendError ''unverified'') (example_webhook_request example_session)
     = (\<lparr>webhook_status = 200,
         webhook_json = [(''received'', JBool True), (''emailSent'', JBool True)]\<rparr>,
        [download_mail ''buyer@example.com'']) \<and>
   webhook_handler (\<lambda>to. Sent) (example_webhook_request example_session)
     = (\<lparr>webhook_status = 200,
         webhook_json = [(''received'', JBool True), (''emailSent'', JBool True)]\<rparr>,
        [download_mail ''buyer@example.com''])"
proof -
  let ?req = "example_webhook_request example_session"
  let ?ev = "\<lparr>event_type = ''checkout.session.completed'', object = example_session\<rparr>"
  have p: "webhook_method ?req = ''POST''" by (simp add: example_webhook_request_def)
  have c: "constructEvent ?req = Inr ?ev" by (simp add: example_webhook_request_def)
  have t: "event_type ?ev = ''checkout.session.completed''" by simp
  have a: "2800 \<le> amount_total (object ?ev)" "amount_total (object ?ev) \<le> 3100"
    by (simp_all add: example_session_def)
  have m: "customerEmail (object ?ev) = Some ''buyer@example.com''" by code_simp
  show ?thesis
    using webhook_dispatch_failure
        [OF p c t a m, where send = "\<lambda>to. SendFailed ''timeout''" and msg = "''timeout''"]
      webhook_dispatch_failure
        [OF p c t a m, where send = "\<lambda>to. SendError ''unverified''" and msg = "''unverified''"]
      webhook_dispatch_failure [OF p c t a m, where send = "\<lambda>to. Sent"]
    by simp
qed

text \<open>
  C2 as stated fails at that session when the dispatch throws: the answer is 500, not the
  200 acknowledgment.
\<close>

theorem webhook_dispatch_failure_counterexample:
  "customerEmail example_session = Some ''buyer@example.com'' \<and>
   amount_total example_session = 2900 \<and>
   webhook_handler (\<lambda>to. SendFailed ''timeout'') (example_webhook_request example_session)
     = (\<lparr>webhook_status = 500,
         webhook_json = [(''error'', JStr ''Failed to send email''),
                         (''details'', JStr ''timeout'')]\<rparr>,
        [download_mail ''buyer@example.com''])"
  by code_simp

text \<open>
  C6. For a verified checkout-completed event: an amount outside [2800, 3100] is answered
  200 with \<open>skipped\<close> and no dispatch is attempted; an amount inside the band with an email
  present leads to exactly one dispatch; an amount inside the band with no email is
  answered 400.
\<close>

theorem webhook_amount_band:
  assumes "webhook_method req = ''POST''"
    and "constructEvent req = Inr ev"
    and "event_type ev = ''checkout.session.completed''"
  shows "(amount_total (object ev) < 2800 \<or> amount_total (object ev) > 3100 \<longrightarrow>
            webhook_handler send req
              = (\<lparr>webhook_status = 200,
                  webhook_json = [(''received'', JBool True), (''skipped'', JBool True)]\<rparr>, [])) \<and>
         (2800 \<le> amount_total (object ev) \<and> amount_total (object ev) \<le> 3100 \<and>
          customerEmail (object ev) = Some to \<longrightarrow>
            snd (webhook_handler send req) = [download_mail to]) \<and>
         (2800 \<le> amount_total (object ev) \<and> amount_total (object ev) \<le> 3100 \<and>
          customerEmail (object ev) = None \<longrightarrow>
            webhook_handler send req
              = (\<lparr>webhook_status = 400, webhook_json = [(''error'', JStr ''No customer email'')]\<rparr>,
                 []))"
  using assms
  by (cases "send to") (auto simp: webhook_handler_def Let_def)

text \<open>
  The theorem at sessions of 4900, of 2900 with an email, and of 2900 without one.
\<close>

theorem webhook_amount_band_witness:
  "webhook_handler (\<lambda>to. Sent) (example_webhook_request (example_session\<lparr>amount_total := 4900\<rparr>))
     = (\<lparr>webhook_status = 200,
         webhook_json = [(''received'', JBool True), (''skipped'', JBool True)]\<rparr>, []) \<and>
   snd (webhook_handler (\<lambda>to. Sent) (example_webhook_request example_session))
     = [download_mail ''buyer@example.com''] \<and>
   webhook_handler (\<lambda>to. Sent)
       (example_webhook_request (example_session\<lparr>customer_details := None\<rparr>))
     = (\<lparr>webhook_status = 400, webhook_json = [(''error'', JStr ''No customer email'')]\<rparr>, [])"
proof -
  let ?s1 = "example_session\<lparr>amount_total := 4900\<rparr>"
  let ?s3 = "example_session\<lparr>customer_details := None\<rparr>"
  have p: "\<And>s. webhook_method (example_webhook_request s) = ''POST''"
    by (simp add: example_webhook_request_def)
  have c: "\<And>s. constructEvent (example_webhook_request s)
      = Inr \<lparr>event_type = ''checkout.session.completed'', object = s\<rparr>"
    by (simp add: example_webhook_request_def)
  have t: "\<And>s. event_type \<lparr>event_type = ''checkout.session.completed'', object = s\<rparr>
      = ''checkout.session.completed''" by simp
  have a1: "amount_total ?s1 > 3100" by (simp add: example_session_def)
  have a2: "2800 \<le> amount_total example_session \<and> amount_total example_session \<le> 3100"
    by (simp add: example_session_def)
  have a3: "2800 \<le> amount_total ?s3 \<and> amount_total ?s3 \<le> 3100"
    by (simp add: example_session_def)
  have m2: "customerEmail example_session = Some ''buyer@example.com''" by code_simp
  have m3: "customerEmail ?s3 = None" by code_simp
  show ?thesis
    using webhook_amount_band [OF p c t, where s1 = ?s1 and send = "\<lambda>to. Sent"] a1
      webhook_amount_band
        [OF p c t, where s1 = example_session and to = "''buyer@example.com''"
          and send = "\<lambda>to. Sent"] a2 m2
      webhook_amount_band [OF p c t, where s1 = ?s3 and send = "\<lambda>to. Sent"] a3 m3
    by simp
qed

end
